theory Spec2Isabelle
  imports Main "HOL-Library.Word" "HOL-Library.AList"
begin

section \<open>Time, identifiers and machine integers\<close>

text \<open>
  A Go \<open>time.Time\<close> is an instant; it is modelled as the number of nanoseconds since the
  Unix epoch. \<open>time.UnixMilli\<close> builds an instant from a millisecond count, the method
  \<open>Time.UnixMilli\<close> reads the millisecond count back (rounding down), \<open>IsZero\<close> holds of
  the zero value of the type only, which is January 1 of year 1 and not the Unix epoch.
\<close>

type_synonym time = int

definition UnixMilli :: "int \<Rightarrow> time" where
  "UnixMilli msec = msec * 1000000"

definition toUnixMilli :: "time \<Rightarrow> int" where
  "toUnixMilli t = t div 1000000"

definition zeroTime :: time where
  "zeroTime = - 62135596800 * 1000000000"

definition IsZero :: "time \<Rightarrow> bool" where
  "IsZero t = (t = zeroTime)"

definition After :: "time \<Rightarrow> time \<Rightarrow> bool" where
  "After t u = (u < t)"

text \<open>
  A \<open>uuid.UUID\<close> is an array of 16 bytes. Its \<open>String\<close> method prints the 32 lower-case
  hexadecimal digits in groups of 8, 4, 4, 4 and 12, separated by dashes.
\<close>

type_synonym uuid = "128 word"

definition hex_digit :: "int \<Rightarrow> char" where
  "hex_digit n = ''0123456789abcdef'' ! nat (n mod 16)"

fun hex_of :: "nat \<Rightarrow> int \<Rightarrow> string" where
  "hex_of 0 n = []"
| "hex_of (Suc k) n = hex_of k (n div 16) @ [hex_digit n]"

definition uuid_String :: "uuid \<Rightarrow> string" where
  "uuid_String u =
     (let h = hex_of 32 (uint u)
      in take 8 h @ ''-'' @ take 4 (drop 8 h) @ ''-'' @ take 4 (drop 12 h) @ ''-''
         @ take 4 (drop 16 h) @ ''-'' @ drop 20 h)"

text \<open>The verb \<open>%d\<close> of \<open>fmt.Sprintf\<close> on an integer: decimal digits, with a minus sign.\<close>

definition dec_digit :: "int \<Rightarrow> char" where
  "dec_digit n = ''0123456789'' ! nat (n mod 10)"

function dec_of :: "int \<Rightarrow> string" where
  "dec_of n = (if n < 10 then [dec_digit n] else dec_of (n div 10) @ [dec_digit n])"
  by pat_completeness auto
termination
  by (relation "measure nat") auto

declare dec_of.simps [simp del]

definition fmt_d :: "int \<Rightarrow> string" where
  "fmt_d i = (if i < 0 then ''-'' @ dec_of (- i) else dec_of i)"

text \<open>
  Go's \<open>int\<close> is a 64-bit two's complement integer on the platforms the server is built
  for; a sum that leaves the range wraps around.
\<close>

definition wrap_int64 :: "int \<Rightarrow> int" where
  "wrap_int64 x = (x + 2 ^ 63) mod 2 ^ 64 - 2 ^ 63"

definition int64_add :: "int \<Rightarrow> int \<Rightarrow> int" where
  "int64_add a b = wrap_int64 (a + b)"

section \<open>Data model (package types)\<close>

text \<open>
  The server reads only the identifiers and the version of a thread, and only the
  identifier of a message. All other fields are encrypted by the client and are never
  inspected; they are kept together in the field \<open>Sealed\<close>.
\<close>

record Thread =
  thread_ID :: uuid
  thread_UserID :: uuid
  thread_Version :: int
  thread_Sealed :: string

record Message =
  message_ID :: string
  message_Sealed :: string

record ProviderInstances =
  pi_UserID :: uuid
  pi_Providers :: string
  pi_Version :: int
  pi_UpdatedAt :: time
  pi_CreatedAt :: time

record DisabledModels =
  dm_UserID :: uuid
  dm_Models :: string
  dm_Version :: int
  dm_UpdatedAt :: time
  dm_CreatedAt :: time

record AdvancedSettings =
  as_UserID :: uuid
  as_Settings :: string
  as_Version :: int
  as_UpdatedAt :: time
  as_CreatedAt :: time

text \<open>The entry that \<open>storeMessageChange\<close> writes to the change log.\<close>

record MessageChange =
  mc_resource :: string
  mc_message_id :: string
  mc_thread_id :: string
  mc_operation :: string
  mc_timestamp :: int

section \<open>The key-value store (package database)\<close>

text \<open>
  The store holds strings: JSON documents and raw machine ids. A stored document is
  modelled by the value it encodes, and unmarshalling into a type succeeds exactly on a
  document of that type. Every call to the store can fail; the calls listed in \<open>faults\<close>
  do. A key of \<open>kv\<close> may carry a time to live in seconds.
\<close>

datatype val =
    JThread Thread
  | JMessage Message
  | JProviderInstances ProviderInstances
  | JDisabledModels DisabledModels
  | JAdvancedSettings AdvancedSettings
  | JChange MessageChange
  | Raw string

datatype db_op =
    OpSet string | OpGet string | OpDel string | OpKeys string
  | OpZAdd string | OpZRem string

datatype error =
    RedisNil
  | StoreFailure db_op
  | UnmarshalFailure
  | VersionConflict int int

record db =
  kv :: "(string \<times> val \<times> int option) list"
  zsets :: "((string \<times> string) \<times> int) list"
  faults :: "db_op list"

definition db_Set :: "db \<Rightarrow> string \<Rightarrow> val \<Rightarrow> int \<Rightarrow> db \<times> error option" where
  "db_Set d key v expiration =
     (if OpSet key \<in> set (faults d) then (d, Some (StoreFailure (OpSet key)))
      else (d\<lparr>kv := AList.update key
                      (v, if expiration > 0 then Some expiration else None) (kv d)\<rparr>, None))"

definition db_Get :: "db \<Rightarrow> string \<Rightarrow> error + val" where
  "db_Get d key =
     (if OpGet key \<in> set (faults d) then Inl (StoreFailure (OpGet key))
      else (case map_of (kv d) key of None \<Rightarrow> Inl RedisNil | Some (v, ttl) \<Rightarrow> Inr v))"

definition db_Del :: "db \<Rightarrow> string \<Rightarrow> db \<times> error option" where
  "db_Del d key =
     (if OpDel key \<in> set (faults d) then (d, Some (StoreFailure (OpDel key)))
      else (d\<lparr>kv := AList.delete key (kv d)\<rparr>, None))"

text \<open>
  Every pattern the service passes to \<open>Keys\<close> is a literal prefix followed by \<open>*\<close>; the
  prefix is matched literally.
\<close>

definition key_matches :: "string \<Rightarrow> string \<Rightarrow> bool" where
  "key_matches pattern key =
     (if pattern \<noteq> [] \<and> last pattern = CHR ''*''
      then take (length pattern - 1) key = butlast pattern
      else key = pattern)"

definition db_Keys :: "db \<Rightarrow> string \<Rightarrow> error + string list" where
  "db_Keys d pattern =
     (if OpKeys pattern \<in> set (faults d) then Inl (StoreFailure (OpKeys pattern))
      else Inr (filter (key_matches pattern) (map fst (kv d))))"

definition db_ZAdd :: "db \<Rightarrow> string \<Rightarrow> int \<Rightarrow> string \<Rightarrow> db \<times> error option" where
  "db_ZAdd d key score member =
     (if OpZAdd key \<in> set (faults d) then (d, Some (StoreFailure (OpZAdd key)))
      else (d\<lparr>zsets := AList.update (key, member) score (zsets d)\<rparr>, None))"

definition db_ZRem :: "db \<Rightarrow> string \<Rightarrow> string \<Rightarrow> db \<times> error option" where
  "db_ZRem d key member =
     (if OpZRem key \<in> set (faults d) then (d, Some (StoreFailure (OpZRem key)))
      else (d\<lparr>zsets := AList.delete (key, member) (zsets d)\<rparr>, None))"

section \<open>Thread operations (SyncService)\<close>

definition unmarshal_Thread :: "val \<Rightarrow> Thread option" where
  "unmarshal_Thread v = (case v of JThread t \<Rightarrow> Some t | _ \<Rightarrow> None)"

definition thread_key :: "uuid \<Rightarrow> uuid \<Rightarrow> string" where
  "thread_key userID threadID =
     ''threads:'' @ uuid_String userID @ '':'' @ uuid_String threadID"

definition thread_timestamp_key :: "uuid \<Rightarrow> string" where
  "thread_timestamp_key userID = ''timestamps:threads:'' @ uuid_String userID"

definition machine_id_key :: "string \<Rightarrow> uuid \<Rightarrow> time \<Rightarrow> string" where
  "machine_id_key resourceType resourceID timestamp =
     ''machine_id:'' @ resourceType @ '':'' @ uuid_String resourceID @ '':''
       @ fmt_d (toUnixMilli timestamp)"

definition storeMachineIDForChange ::
  "db \<Rightarrow> string \<Rightarrow> uuid \<Rightarrow> string \<Rightarrow> time \<Rightarrow> db \<times> error option" where
  "storeMachineIDForChange d resourceType resourceID machineID timestamp =
     db_Set d (machine_id_key resourceType resourceID timestamp) (Raw machineID) 0"

text \<open>
  \<open>getMachineIDForChange\<close> returns the stored string and the error of \<open>Get\<close>; every caller
  drops the error and keeps the string, which is empty when the read failed.
\<close>

definition getMachineIDForChange :: "db \<Rightarrow> string \<Rightarrow> uuid \<Rightarrow> time \<Rightarrow> string" where
  "getMachineIDForChange d resourceType resourceID timestamp =
     (case db_Get d (machine_id_key resourceType resourceID timestamp) of
        Inr (Raw m) \<Rightarrow> m
      | _ \<Rightarrow> [])"

text \<open>The loop body shared by \<open>GetThreads\<close> and \<open>GetThreadsPaginated\<close>.\<close>

fun scan_threads :: "db \<Rightarrow> time option \<Rightarrow> string list \<Rightarrow> Thread list" where
  "scan_threads d since [] = []"
| "scan_threads d since (key # keys) =
     (case db_Get d key of
        Inl err \<Rightarrow> scan_threads d since keys
      | Inr data \<Rightarrow>
          (case unmarshal_Thread data of
             None \<Rightarrow> scan_threads d since keys
           | Some thread \<Rightarrow>
               (case since of
                  None \<Rightarrow> thread # scan_threads d since keys
                | Some s \<Rightarrow>
                    if \<not> After (UnixMilli (thread_Version thread)) s
                    then scan_threads d since keys
                    else thread # scan_threads d since keys)))"

definition GetThreads :: "db \<Rightarrow> uuid \<Rightarrow> time option \<Rightarrow> error + Thread list" where
  "GetThreads d userID since =
     (case db_Keys d (''threads:'' @ uuid_String userID @ '':*'') of
        Inl err \<Rightarrow> Inl err
      | Inr keys \<Rightarrow> Inr (scan_threads d since keys))"

definition getThread :: "db \<Rightarrow> uuid \<Rightarrow> uuid \<Rightarrow> error + Thread" where
  "getThread d userID threadID =
     (case db_Get d (thread_key userID threadID) of
        Inl err \<Rightarrow> Inl err
      | Inr data \<Rightarrow>
          (case unmarshal_Thread data of
             None \<Rightarrow> Inl UnmarshalFailure
           | Some thread \<Rightarrow> Inr thread))"

text \<open>
  \<open>saveThread\<close> writes the record and then the timestamp index, whose score is the
  version; a failure of the second write leaves the first in place.
\<close>

definition saveThread :: "db \<Rightarrow> Thread \<Rightarrow> db \<times> error option" where
  "saveThread d thread =
     (case db_Set d (thread_key (thread_UserID thread) (thread_ID thread)) (JThread thread) 0 of
        (d1, Some err) \<Rightarrow> (d1, Some err)
      | (d1, None) \<Rightarrow>
          db_ZAdd d1 (thread_timestamp_key (thread_UserID thread)) (thread_Version thread)
            (uuid_String (thread_ID thread)))"

definition UpsertThread :: "db \<Rightarrow> Thread \<Rightarrow> string \<Rightarrow> time \<Rightarrow> db \<times> (error + bool)" where
  "UpsertThread d thread machineID now =
     (let existing = getThread d (thread_UserID thread) (thread_ID thread);
          isCreating = isl existing
      in if \<not> isCreating \<and> thread_Version thread \<le> thread_Version (projr existing)
         then (d, Inl (VersionConflict (thread_Version (projr existing))
                                       (thread_Version thread)))
         else (case saveThread d thread of
                 (d1, Some err) \<Rightarrow> (d1, Inl err)
               | (d1, None) \<Rightarrow>
                   (fst (storeMachineIDForChange d1 ''thread'' (thread_ID thread)
                           machineID now),
                    Inr isCreating)))"

definition DeleteThread :: "db \<Rightarrow> uuid \<Rightarrow> uuid \<Rightarrow> db \<times> error option" where
  "DeleteThread d userID threadID =
     (case db_Del d (thread_key userID threadID) of
        (d1, Some err) \<Rightarrow> (d1, Some err)
      | (d1, None) \<Rightarrow>
          db_ZRem d1 (thread_timestamp_key userID) (uuid_String threadID))"

text \<open>
  A call either returns or panics (a slice expression out of range, \<open>uuid.MustParse\<close> on a
  string that is no UUID). The HTTP layer recovers a panic into a status 500.
\<close>

datatype 'a outcome = Panicked | Returned 'a

record PaginatedThreadsResponse =
  pt_Threads :: "Thread list"
  pt_Total :: int
  pt_Offset :: int
  pt_Limit :: int
  pt_HasMore :: bool

text \<open>
  The slice \<open>all[offset:end]\<close> of the pagination step, taken when \<open>offset < total\<close>, with
  \<open>end\<close> the wrapped sum \<open>offset + limit\<close> cut down to \<open>total\<close>. A negative \<open>offset\<close> or an
  \<open>end\<close> below \<open>offset\<close> panics.
\<close>

definition paginate :: "'a list \<Rightarrow> int \<Rightarrow> int \<Rightarrow> 'a list outcome" where
  "paginate all offset limit =
     (let total = int (length all)
      in if offset < total
         then (let end0 = int64_add offset limit;
                   end1 = (if end0 > total then total else end0)
               in if 0 \<le> offset \<and> offset \<le> end1
                  then Returned (take (nat (end1 - offset)) (drop (nat offset) all))
                  else Panicked)
         else Returned [])"

definition GetThreadsPaginated ::
  "db \<Rightarrow> uuid \<Rightarrow> int \<Rightarrow> int \<Rightarrow> time option \<Rightarrow> (error + PaginatedThreadsResponse) outcome" where
  "GetThreadsPaginated d userID offset limit since =
     (case db_Keys d (''threads:'' @ uuid_String userID @ '':*'') of
        Inl err \<Rightarrow> Returned (Inl err)
      | Inr keys \<Rightarrow>
          (let allThreads = scan_threads d since keys;
               total = int (length allThreads)
           in case paginate allThreads offset limit of
                Panicked \<Rightarrow> Panicked
              | Returned paginatedThreads \<Rightarrow>
                  Returned (Inr \<lparr>pt_Threads = paginatedThreads, pt_Total = total,
                                 pt_Offset = offset, pt_Limit = limit,
                                 pt_HasMore = (int64_add offset limit < total)\<rparr>)))"

section \<open>Message operations (SyncService)\<close>

definition unmarshal_Message :: "val \<Rightarrow> Message option" where
  "unmarshal_Message v = (case v of JMessage m \<Rightarrow> Some m | _ \<Rightarrow> None)"

definition message_key :: "string \<Rightarrow> string \<Rightarrow> string" where
  "message_key threadID messageID = ''messages:'' @ threadID @ '':'' @ messageID"

fun scan_messages :: "db \<Rightarrow> string list \<Rightarrow> Message list" where
  "scan_messages d [] = []"
| "scan_messages d (key # keys) =
     (case db_Get d key of
        Inl err \<Rightarrow> scan_messages d keys
      | Inr data \<Rightarrow>
          (case unmarshal_Message data of
             None \<Rightarrow> scan_messages d keys
           | Some message \<Rightarrow> message # scan_messages d keys))"

definition GetMessages :: "db \<Rightarrow> string \<Rightarrow> time option \<Rightarrow> error + Message list" where
  "GetMessages d threadID since =
     (case db_Keys d (''messages:'' @ threadID @ '':*'') of
        Inl err \<Rightarrow> Inl err
      | Inr keys \<Rightarrow> Inr (scan_messages d keys))"

record PaginatedMessagesResponse =
  pm_Messages :: "Message list"
  pm_Total :: int
  pm_Offset :: int
  pm_Limit :: int
  pm_HasMore :: bool

definition GetMessagesPaginated ::
  "db \<Rightarrow> string \<Rightarrow> int \<Rightarrow> int \<Rightarrow> time option \<Rightarrow> (error + PaginatedMessagesResponse) outcome" where
  "GetMessagesPaginated d threadID offset limit since =
     (case db_Keys d (''messages:'' @ threadID @ '':*'') of
        Inl err \<Rightarrow> Returned (Inl err)
      | Inr keys \<Rightarrow>
          (let allMessages = scan_messages d keys;
               total = int (length allMessages)
           in case paginate allMessages offset limit of
                Panicked \<Rightarrow> Panicked
              | Returned paginatedMessages \<Rightarrow>
                  Returned (Inr \<lparr>pm_Messages = paginatedMessages, pm_Total = total,
                                 pm_Offset = offset, pm_Limit = limit,
                                 pm_HasMore = (int64_add offset limit < total)\<rparr>)))"

definition saveMessage :: "db \<Rightarrow> string \<Rightarrow> Message \<Rightarrow> db \<times> error option" where
  "saveMessage d threadID message =
     db_Set d (message_key threadID (message_ID message)) (JMessage message) 0"

definition message_change_key :: "string \<Rightarrow> time \<Rightarrow> string" where
  "message_change_key messageID timestamp =
     ''message_changes:'' @ messageID @ '':'' @ fmt_d (toUnixMilli timestamp)"

definition storeMessageChange ::
  "db \<Rightarrow> string \<Rightarrow> string \<Rightarrow> string \<Rightarrow> time \<Rightarrow> string \<Rightarrow> db \<times> error option" where
  "storeMessageChange d resourceType messageID operation timestamp threadID =
     db_Set d (message_change_key messageID timestamp)
       (JChange \<lparr>mc_resource = resourceType, mc_message_id = messageID,
                 mc_thread_id = threadID, mc_operation = operation,
                 mc_timestamp = toUnixMilli timestamp\<rparr>)
       2592000"


text \<open>
  \<open>uuid.Parse\<close> belongs to a library outside the repository; the operations that call
  \<open>uuid.MustParse\<close> take it as the argument \<open>parse\<close>, and panic where it yields nothing.
\<close>

definition UpdateMessage ::
  "(string \<Rightarrow> uuid option) \<Rightarrow> db \<Rightarrow> string \<Rightarrow> Message \<Rightarrow> string \<Rightarrow> time
     \<Rightarrow> db \<times> error option outcome" where
  "UpdateMessage parse d threadID message machineID now =
     (case saveMessage d threadID message of
        (d1, Some err) \<Rightarrow> (d1, Returned (Some err))
      | (d1, None) \<Rightarrow>
          (case parse (message_ID message) of
             None \<Rightarrow> (d1, Panicked)
           | Some resourceID \<Rightarrow>
               (let d2 = fst (storeMachineIDForChange d1 ''message'' resourceID machineID now);
                    d3 = fst (storeMessageChange d2 ''message'' (message_ID message)
                                ''update'' now threadID)
                in (d3, Returned None))))"

definition DeleteMessage :: "db \<Rightarrow> string \<Rightarrow> string \<Rightarrow> time \<Rightarrow> db \<times> error option" where
  "DeleteMessage d threadID messageID now =
     (let d1 = fst (storeMessageChange d ''message'' messageID ''delete'' now threadID)
      in db_Del d1 (message_key threadID messageID))"

section \<open>Settings operations (SyncService)\<close>

definition unmarshal_ProviderInstances :: "val \<Rightarrow> ProviderInstances option" where
  "unmarshal_ProviderInstances v = (case v of JProviderInstances p \<Rightarrow> Some p | _ \<Rightarrow> None)"

definition unmarshal_DisabledModels :: "val \<Rightarrow> DisabledModels option" where
  "unmarshal_DisabledModels v = (case v of JDisabledModels p \<Rightarrow> Some p | _ \<Rightarrow> None)"

definition unmarshal_AdvancedSettings :: "val \<Rightarrow> AdvancedSettings option" where
  "unmarshal_AdvancedSettings v = (case v of JAdvancedSettings p \<Rightarrow> Some p | _ \<Rightarrow> None)"

definition provider_instances_key :: "uuid \<Rightarrow> string" where
  "provider_instances_key userID = ''provider_instances:'' @ uuid_String userID"

definition disabled_models_key :: "uuid \<Rightarrow> string" where
  "disabled_models_key userID = ''disabled_models:'' @ uuid_String userID"

definition advanced_settings_key :: "uuid \<Rightarrow> string" where
  "advanced_settings_key userID = ''advanced_settings:'' @ uuid_String userID"

definition GetProviderInstances :: "db \<Rightarrow> uuid \<Rightarrow> error + ProviderInstances" where
  "GetProviderInstances d userID =
     (case db_Get d (provider_instances_key userID) of
        Inl err \<Rightarrow> Inl err
      | Inr data \<Rightarrow>
          (case unmarshal_ProviderInstances data of
             None \<Rightarrow> Inl UnmarshalFailure
           | Some providers \<Rightarrow> Inr providers))"

definition UpdateProviderInstances ::
  "db \<Rightarrow> ProviderInstances \<Rightarrow> string \<Rightarrow> time \<Rightarrow> db \<times> error option" where
  "UpdateProviderInstances d providers0 machineID now =
     (let providers = providers0\<lparr>pi_UpdatedAt := now\<rparr>
      in case db_Set d (provider_instances_key (pi_UserID providers))
                (JProviderInstances providers) 0 of
           (d1, Some err) \<Rightarrow> (d1, Some err)
         | (d1, None) \<Rightarrow>
             (fst (storeMachineIDForChange d1 ''provider_instances'' (pi_UserID providers)
                     machineID now),
              None))"

definition GetDisabledModels :: "db \<Rightarrow> uuid \<Rightarrow> error + DisabledModels" where
  "GetDisabledModels d userID =
     (case db_Get d (disabled_models_key userID) of
        Inl err \<Rightarrow> Inl err
      | Inr data \<Rightarrow>
          (case unmarshal_DisabledModels data of
             None \<Rightarrow> Inl UnmarshalFailure
           | Some models \<Rightarrow> Inr models))"

definition UpdateDisabledModels ::
  "db \<Rightarrow> DisabledModels \<Rightarrow> string \<Rightarrow> time \<Rightarrow> db \<times> error option" where
  "UpdateDisabledModels d models0 machineID now =
     (let models = models0\<lparr>dm_UpdatedAt := now\<rparr>
      in case db_Set d (disabled_models_key (dm_UserID models)) (JDisabledModels models) 0 of
           (d1, Some err) \<Rightarrow> (d1, Some err)
         | (d1, None) \<Rightarrow>
             (fst (storeMachineIDForChange d1 ''disabled_models'' (dm_UserID models)
                     machineID now),
              None))"

definition GetAdvancedSettings :: "db \<Rightarrow> uuid \<Rightarrow> error + AdvancedSettings" where
  "GetAdvancedSettings d userID =
     (case db_Get d (advanced_settings_key userID) of
        Inl err \<Rightarrow> Inl err
      | Inr data \<Rightarrow>
          (case unmarshal_AdvancedSettings data of
             None \<Rightarrow> Inl UnmarshalFailure
           | Some settings \<Rightarrow> Inr settings))"

definition UpdateAdvancedSettings ::
  "db \<Rightarrow> AdvancedSettings \<Rightarrow> string \<Rightarrow> time \<Rightarrow> db \<times> error option" where
  "UpdateAdvancedSettings d settings0 machineID now =
     (let settings = settings0\<lparr>as_UpdatedAt := now\<rparr>
      in case db_Set d (advanced_settings_key (as_UserID settings))
                (JAdvancedSettings settings) 0 of
           (d1, Some err) \<Rightarrow> (d1, Some err)
         | (d1, None) \<Rightarrow>
             (fst (storeMachineIDForChange d1 ''advanced_settings'' (as_UserID settings)
                     machineID now),
              None))"

section \<open>The change feed (SyncService.GetChangesSince)\<close>

record ChangeOperation =
  op_Resource :: string
  op_Operation :: string
  op_ID :: string
  op_MachineID :: string
  op_Data :: "val option"
  op_Timestamp :: time

record ChangesSinceResponse =
  resp_FullThreads :: "Thread list"
  resp_FullMessages :: "Message list"
  resp_ProviderInstances :: "ProviderInstances option"
  resp_DisabledModels :: "DisabledModels option"
  resp_AdvancedSettings :: "AdvancedSettings option"
  resp_Operations :: "ChangeOperation list"
  resp_SyncTimestamp :: time

definition unmarshal_Change :: "val \<Rightarrow> MessageChange option" where
  "unmarshal_Change v = (case v of JChange c \<Rightarrow> Some c | _ \<Rightarrow> None)"

text \<open>
  The loop of \<open>getMessageChangesSince\<close> over the keys of the change log. An entry is
  skipped when it cannot be read or is not after the cursor; the payload of an entry that
  is no deletion is the current message, when it can still be read; the message id of an
  entry that is kept goes through \<open>uuid.MustParse\<close>.
\<close>

fun scan_changes ::
  "(string \<Rightarrow> uuid option) \<Rightarrow> db \<Rightarrow> time \<Rightarrow> string list \<Rightarrow> ChangeOperation list outcome" where
  "scan_changes parse d timestamp [] = Returned []"
| "scan_changes parse d timestamp (key # keys) =
     (case db_Get d key of
        Inl err \<Rightarrow> scan_changes parse d timestamp keys
      | Inr data \<Rightarrow>
          (case unmarshal_Change data of
             None \<Rightarrow> scan_changes parse d timestamp keys
           | Some changeData \<Rightarrow>
               (let changeTimestamp = UnixMilli (mc_timestamp changeData);
                    messageID = mc_message_id changeData;
                    threadID = mc_thread_id changeData;
                    operation = mc_operation changeData
                in if \<not> After changeTimestamp timestamp
                   then scan_changes parse d timestamp keys
                   else
                     (let messageData =
                            (if operation \<noteq> ''delete''
                             then (case db_Get d (message_key threadID messageID) of
                                     Inl err \<Rightarrow> None
                                   | Inr messageDataStr \<Rightarrow>
                                       (case unmarshal_Message messageDataStr of
                                          None \<Rightarrow> None
                                        | Some message \<Rightarrow> Some (JMessage message)))
                             else None)
                      in case parse messageID of
                           None \<Rightarrow> Panicked
                         | Some resourceID \<Rightarrow>
                             (case scan_changes parse d timestamp keys of
                                Panicked \<Rightarrow> Panicked
                              | Returned ops \<Rightarrow>
                                  Returned
                                    (\<lparr>op_Resource = ''message'', op_Operation = operation,
                                      op_ID = messageID,
                                      op_MachineID =
                                        getMachineIDForChange d ''message'' resourceID
                                          changeTimestamp,
                                      op_Data = messageData,
                                      op_Timestamp = changeTimestamp\<rparr> # ops))))))"

definition getMessageChangesSince ::
  "(string \<Rightarrow> uuid option) \<Rightarrow> db \<Rightarrow> time \<Rightarrow> (error + ChangeOperation list) outcome" where
  "getMessageChangesSince parse d timestamp =
     (case db_Keys d ''message_changes:*'' of
        Inl err \<Rightarrow> Returned (Inl err)
      | Inr keys \<Rightarrow>
          (case scan_changes parse d timestamp keys of
             Panicked \<Rightarrow> Panicked
           | Returned ops \<Rightarrow> Returned (Inr ops)))"

definition thread_operation :: "db \<Rightarrow> Thread \<Rightarrow> ChangeOperation" where
  "thread_operation d t =
     (let changeTimestamp = UnixMilli (thread_Version t)
      in \<lparr>op_Resource = ''thread'', op_Operation = ''update'',
          op_ID = uuid_String (thread_ID t),
          op_MachineID = getMachineIDForChange d ''thread'' (thread_ID t) changeTimestamp,
          op_Data = Some (JThread t), op_Timestamp = changeTimestamp\<rparr>)"

definition provider_instances_operations :: "db \<Rightarrow> uuid \<Rightarrow> time \<Rightarrow> ChangeOperation list" where
  "provider_instances_operations d userID timestamp =
     (case GetProviderInstances d userID of
        Inl err \<Rightarrow> []
      | Inr pi \<Rightarrow>
          if After (pi_UpdatedAt pi) timestamp
          then [\<lparr>op_Resource = ''provider_instances'', op_Operation = ''update'',
                 op_ID = uuid_String (pi_UserID pi),
                 op_MachineID = getMachineIDForChange d ''provider_instances''
                                  (pi_UserID pi) (pi_UpdatedAt pi),
                 op_Data = Some (JProviderInstances pi),
                 op_Timestamp = pi_UpdatedAt pi\<rparr>]
          else [])"

definition disabled_models_operations :: "db \<Rightarrow> uuid \<Rightarrow> time \<Rightarrow> ChangeOperation list" where
  "disabled_models_operations d userID timestamp =
     (case GetDisabledModels d userID of
        Inl err \<Rightarrow> []
      | Inr dm \<Rightarrow>
          if After (dm_UpdatedAt dm) timestamp
          then [\<lparr>op_Resource = ''disabled_models'', op_Operation = ''update'',
                 op_ID = uuid_String (dm_UserID dm),
                 op_MachineID = getMachineIDForChange d ''disabled_models''
                                  (dm_UserID dm) (dm_UpdatedAt dm),
                 op_Data = Some (JDisabledModels dm),
                 op_Timestamp = dm_UpdatedAt dm\<rparr>]
          else [])"

definition advanced_settings_operations :: "db \<Rightarrow> uuid \<Rightarrow> time \<Rightarrow> ChangeOperation list" where
  "advanced_settings_operations d userID timestamp =
     (case GetAdvancedSettings d userID of
        Inl err \<Rightarrow> []
      | Inr as \<Rightarrow>
          if After (as_UpdatedAt as) timestamp
          then [\<lparr>op_Resource = ''advanced_settings'', op_Operation = ''update'',
                 op_ID = uuid_String (as_UserID as),
                 op_MachineID = getMachineIDForChange d ''advanced_settings''
                                  (as_UserID as) (as_UpdatedAt as),
                 op_Data = Some (JAdvancedSettings as),
                 op_Timestamp = as_UpdatedAt as\<rparr>]
          else [])"

text \<open>
  \<open>GetChangesSince\<close> never returns an error. With the zero instant as cursor it returns
  the snapshots: the threads of the user, the messages under every key of the pattern
  \<open>messages:*\<close>, and the settings that can be read. Otherwise it returns the operations:
  the threads whose version lies after the cursor, each settings record updated after
  the cursor, and the entries of the change log after the cursor.
\<close>

definition GetChangesSince ::
  "(string \<Rightarrow> uuid option) \<Rightarrow> db \<Rightarrow> uuid \<Rightarrow> time \<Rightarrow> time \<Rightarrow> ChangesSinceResponse outcome" where
  "GetChangesSince parse d userID timestamp now =
     (let response = \<lparr>resp_FullThreads = [], resp_FullMessages = [],
                      resp_ProviderInstances = None, resp_DisabledModels = None,
                      resp_AdvancedSettings = None, resp_Operations = [],
                      resp_SyncTimestamp = now\<rparr>
      in if IsZero timestamp
         then
           (let fullThreads = (case GetThreads d userID None of
                                 Inl err \<Rightarrow> [] | Inr ts \<Rightarrow> ts);
                fullMessages = (case db_Keys d ''messages:*'' of
                                  Inl err \<Rightarrow> [] | Inr keys \<Rightarrow> scan_messages d keys);
                pi = (case GetProviderInstances d userID of
                        Inl err \<Rightarrow> None | Inr p \<Rightarrow> Some p);
                dm = (case GetDisabledModels d userID of
                        Inl err \<Rightarrow> None | Inr p \<Rightarrow> Some p);
                as = (case GetAdvancedSettings d userID of
                        Inl err \<Rightarrow> None | Inr p \<Rightarrow> Some p)
            in Returned (response\<lparr>resp_ProviderInstances := pi, resp_DisabledModels := dm,
                                   resp_AdvancedSettings := as,
                                   resp_FullThreads := fullThreads,
                                   resp_FullMessages := fullMessages\<rparr>))
         else
           (let threads = (case GetThreads d userID (Some timestamp) of
                             Inl err \<Rightarrow> [] | Inr ts \<Rightarrow> ts);
                ops = map (thread_operation d) threads
                      @ provider_instances_operations d userID timestamp
                      @ disabled_models_operations d userID timestamp
                      @ advanced_settings_operations d userID timestamp
            in case getMessageChangesSince parse d timestamp of
                 Panicked \<Rightarrow> Panicked
               | Returned r \<Rightarrow>
                   (let messageChanges = (case r of Inl err \<Rightarrow> [] | Inr mcs \<Rightarrow> mcs)
                    in Returned (response\<lparr>resp_Operations := ops @ messageChanges\<rparr>))))"

section \<open>HTTP handlers (SyncHandler)\<close>

text \<open>
  Of a handler the model keeps what it computes from the request once the user is
  authenticated. A query parameter that \<open>strconv.Atoi\<close> reads is given by its result:
  \<open>None\<close> when the parameter is empty or no integer of the range of \<open>int\<close>. The parameter
  \<open>since\<close> is given by the instant \<open>time.Parse\<close> yields, \<open>None\<close> when it is empty or
  malformed.
\<close>

datatype 'a http = Status400 | Status500 | Status200 'a

definition parse_offset :: "int option \<Rightarrow> int" where
  "parse_offset q = (case q of None \<Rightarrow> 0
                     | Some parsedOffset \<Rightarrow> if parsedOffset \<ge> 0 then parsedOffset else 0)"

definition threads_limit :: "int option \<Rightarrow> int" where
  "threads_limit q = (case q of None \<Rightarrow> 10
                      | Some parsedLimit \<Rightarrow>
                          if parsedLimit > 0
                          then (if parsedLimit > 28 then 28 else parsedLimit)
                          else 10)"

definition messages_limit :: "int option \<Rightarrow> int" where
  "messages_limit q = (case q of None \<Rightarrow> 20
                       | Some parsedLimit \<Rightarrow>
                           if parsedLimit > 0
                           then (if parsedLimit > 50 then 50 else parsedLimit)
                           else 20)"

definition SyncHandler_GetThreads ::
  "db \<Rightarrow> uuid \<Rightarrow> int option \<Rightarrow> int option \<Rightarrow> time option \<Rightarrow> PaginatedThreadsResponse http" where
  "SyncHandler_GetThreads d userID offsetQ limitQ since =
     (case GetThreadsPaginated d userID (parse_offset offsetQ) (threads_limit limitQ) since of
        Panicked \<Rightarrow> Status500
      | Returned (Inl err) \<Rightarrow> Status500
      | Returned (Inr result) \<Rightarrow> Status200 result)"

definition SyncHandler_GetMessages ::
  "db \<Rightarrow> string \<Rightarrow> int option \<Rightarrow> int option \<Rightarrow> time option
     \<Rightarrow> PaginatedMessagesResponse http" where
  "SyncHandler_GetMessages d threadIDStr offsetQ limitQ since =
     (if threadIDStr = [] then Status400
      else (case GetMessagesPaginated d threadIDStr (parse_offset offsetQ)
                   (messages_limit limitQ) since of
              Panicked \<Rightarrow> Status500
            | Returned (Inl err) \<Rightarrow> Status500
            | Returned (Inr result) \<Rightarrow> Status200 result))"

text \<open>
  The path parameter of \<open>/changes-since/:timestamp\<close> is given by the result of
  \<open>strconv.ParseInt\<close>; the handler turns the integer into an instant with
  \<open>time.UnixMilli\<close>.
\<close>

definition SyncHandler_GetChangesSince ::
  "(string \<Rightarrow> uuid option) \<Rightarrow> db \<Rightarrow> uuid \<Rightarrow> int option \<Rightarrow> time \<Rightarrow> ChangesSinceResponse http" where
  "SyncHandler_GetChangesSince parse d userID timestampParam now =
     (case timestampParam of
        None \<Rightarrow> Status400
      | Some timestampInt \<Rightarrow>
          (case GetChangesSince parse d userID (UnixMilli timestampInt) now of
             Panicked \<Rightarrow> Status500
           | Returned response \<Rightarrow> Status200 response))"

section \<open>Example requests and stores\<close>

text \<open>
  Two users, a thread and a message of the first, a thread of the second, the machine id
  of a client, and a parser that accepts the canonical text of one identifier only.
\<close>

definition empty_db :: db where
  "empty_db = \<lparr>kv = [], zsets = [], faults = []\<rparr>"

definition alice :: uuid where
  "alice = 0x018f3a2b5c6d70008000000000000001"

definition bob :: uuid where
  "bob = 0x018f3a2b5c6d70008000000000000002"

definition thread_a :: uuid where
  "thread_a = 0x018f3a2b5c6d7000800000000000000a"

definition thread_b :: uuid where
  "thread_b = 0x018f3a2b5c6d7000800000000000000b"

definition message_m :: uuid where
  "message_m = 0x018f3a2b5c6d70008000000000000c01"

definition laptop :: string where
  "laptop = ''018f3a2b-5c6d-7000-8000-0000000000aa''"

definition parse_only :: "uuid \<Rightarrow> string \<Rightarrow> uuid option" where
  "parse_only u s = (if s = uuid_String u then Some u else None)"

definition thread_v :: "int \<Rightarrow> Thread" where
  "thread_v v = \<lparr>thread_ID = thread_a, thread_UserID = alice, thread_Version = v,
                 thread_Sealed = ''c2VhbGVkLXRocmVhZA==''\<rparr>"

definition message_of :: "string \<Rightarrow> string \<Rightarrow> Message" where
  "message_of messageID sealed = \<lparr>message_ID = messageID, message_Sealed = sealed\<rparr>"

definition providers_v :: "int \<Rightarrow> ProviderInstances" where
  "providers_v v = \<lparr>pi_UserID = alice, pi_Providers = ''c2VhbGVkLXByb3ZpZGVycw=='',
                    pi_Version = v, pi_UpdatedAt = 0, pi_CreatedAt = 0\<rparr>"

definition models_v :: "int \<Rightarrow> DisabledModels" where
  "models_v v = \<lparr>dm_UserID = alice, dm_Models = ''c2VhbGVkLW1vZGVscw=='',
                 dm_Version = v, dm_UpdatedAt = 0, dm_CreatedAt = 0\<rparr>"

definition settings_v :: "int \<Rightarrow> AdvancedSettings" where
  "settings_v v = \<lparr>as_UserID = alice, as_Settings = ''c2VhbGVkLXNldHRpbmdz'',
                   as_Version = v, as_UpdatedAt = 0, as_CreatedAt = 0\<rparr>"

definition db_with_thread :: "int \<Rightarrow> db" where
  "db_with_thread v = fst (UpsertThread empty_db (thread_v v) laptop (UnixMilli v))"

definition db_with_providers :: "int \<Rightarrow> time \<Rightarrow> db" where
  "db_with_providers v t = fst (UpdateProviderInstances empty_db (providers_v v) laptop t)"

text \<open>The operations of a response, none when the call panicked.\<close>

definition operations_of :: "ChangesSinceResponse outcome \<Rightarrow> ChangeOperation list" where
  "operations_of r = (case r of Panicked \<Rightarrow> [] | Returned response \<Rightarrow> resp_Operations response)"

text \<open>
  A store after three writes of the first user from the same machine: a thread whose
  version is the server's time of the write, the provider instances, and a message.
\<close>

definition busy_db :: db where
  "busy_db =
     (let d1 = fst (UpsertThread empty_db (thread_v 1700000000250) laptop
                      (UnixMilli 1700000000250));
          d2 = fst (UpdateProviderInstances d1 (providers_v 7) laptop
                      (UnixMilli 1700000000300));
          d3 = fst (UpdateMessage (parse_only message_m) d2 (uuid_String thread_a)
                      (message_of (uuid_String message_m) ''c2VhbGVkLW1lc3NhZ2U='') laptop
                      (UnixMilli 1700000000400))
      in d3)"

text \<open>The body of a response with status 200.\<close>

definition body_of :: "'a http \<Rightarrow> 'a option" where
  "body_of r = (case r of Status200 x \<Rightarrow> Some x | _ \<Rightarrow> None)"


section \<open>Facts about the store\<close>


lemma db_Get_db_Set:
  "db_Set d k v e = (d', None) \<Longrightarrow>
   db_Get d' k' = (if OpGet k' \<in> set (faults d) then Inl (StoreFailure (OpGet k'))
                   else if k' = k then Inr v else db_Get d k')"
  by (auto simp: db_Set_def db_Get_def update_conv' split: if_splits)

lemma db_Get_fst_db_Set:
  "k' \<noteq> k \<Longrightarrow> db_Get (fst (db_Set d k v e)) k' = db_Get d k'"
  by (simp add: db_Set_def db_Get_def update_conv')

lemma db_Get_db_ZAdd: "db_ZAdd d k s m = (d', r) \<Longrightarrow> db_Get d' k' = db_Get d k'"
  by (auto simp: db_ZAdd_def db_Get_def split: if_splits)

lemma thread_key_neq_machine_id_key:
  "machine_id_key r i t \<noteq> thread_key u j"
  by (simp add: machine_id_key_def thread_key_def)


lemma getThread_after_saveThread:
  assumes "saveThread d t = (d1, None)"
    and "OpGet (thread_key (thread_UserID t) (thread_ID t)) \<notin> set (faults d)"
  shows "getThread (fst (storeMachineIDForChange d1 r i m now)) (thread_UserID t) (thread_ID t)
           = Inr t"
proof -
  let ?k = "thread_key (thread_UserID t) (thread_ID t)"
  obtain d0 where s: "db_Set d ?k (JThread t) 0 = (d0, None)"
    and z: "db_ZAdd d0 (thread_timestamp_key (thread_UserID t)) (thread_Version t)
              (uuid_String (thread_ID t)) = (d1, None)"
    using assms(1) by (auto simp: saveThread_def split: prod.splits option.splits)
  have "db_Get d0 ?k = Inr (JThread t)"
    using db_Get_db_Set [OF s, of ?k] assms(2) by simp
  then have "db_Get d1 ?k = Inr (JThread t)"
    using db_Get_db_ZAdd [OF z] by simp
  then have "db_Get (fst (storeMachineIDForChange d1 r i m now)) ?k = Inr (JThread t)"
    by (simp add: storeMachineIDForChange_def db_Get_fst_db_Set
          thread_key_neq_machine_id_key [symmetric])
  then show ?thesis
    by (simp add: getThread_def unmarshal_Thread_def)
qed

lemma getThread_Inr_no_fault:
  "getThread d u i = Inr ex \<Longrightarrow> OpGet (thread_key u i) \<notin> set (faults d)"
  by (auto simp: getThread_def db_Get_def split: if_splits)

lemma getThread_RedisNil_no_fault:
  "getThread d u i = Inl RedisNil \<Longrightarrow> OpGet (thread_key u i) \<notin> set (faults d)"
  by (auto simp: getThread_def db_Get_def split: if_splits sum.splits option.splits)

section \<open>Optimistic concurrency on threads\<close>

text \<open>
  Claim C2. When the thread can be read from the store, an upsert whose version is less
  than or equal to the stored version returns a version conflict and hands back the
  store as it was. Every upsert that succeeds on such a thread leaves the incoming
  record in the store, and its version is strictly greater than the version that was
  stored: across successful writes the stored version of a thread never decreases.
\<close>

theorem UpsertThread_stale_version_rejected:
  assumes "getThread d (thread_UserID t) (thread_ID t) = Inr existing"
  shows "(thread_Version t \<le> thread_Version existing \<longrightarrow>
            UpsertThread d t machineID now
              = (d, Inl (VersionConflict (thread_Version existing) (thread_Version t))))
       \<and> (\<forall>d' created. UpsertThread d t machineID now = (d', Inr created) \<longrightarrow>
            getThread d' (thread_UserID t) (thread_ID t) = Inr t
            \<and> thread_Version existing < thread_Version t)"
proof (intro conjI impI allI)
  assume "thread_Version t \<le> thread_Version existing"
  then show "UpsertThread d t machineID now
              = (d, Inl (VersionConflict (thread_Version existing) (thread_Version t)))"
    using assms by (simp add: UpsertThread_def)
next
  fix d' created
  assume ok: "UpsertThread d t machineID now = (d', Inr created)"
  have nf: "OpGet (thread_key (thread_UserID t) (thread_ID t)) \<notin> set (faults d)"
    using assms by (rule getThread_Inr_no_fault)
  from ok assms show "thread_Version existing < thread_Version t"
    by (auto simp: UpsertThread_def Let_def split: if_splits)
  from ok assms obtain d1 where s: "saveThread d t = (d1, None)"
    and d': "d' = fst (storeMachineIDForChange d1 ''thread'' (thread_ID t) machineID now)"
    by (auto simp: UpsertThread_def Let_def split: if_splits prod.splits option.splits)
  show "getThread d' (thread_UserID t) (thread_ID t) = Inr t"
    unfolding d' by (rule getThread_after_saveThread [OF s nf])
qed

text \<open>
  The scenario of the specification: a thread stored with version 1000 rejects version
  999 and keeps the store, and accepts version 2000.
\<close>

theorem UpsertThread_stale_version_rejected_witness:
  "getThread (db_with_thread 1000) alice thread_a = Inr (thread_v 1000)
   \<and> UpsertThread (db_with_thread 1000) (thread_v 999) laptop (UnixMilli 2000)
       = (db_with_thread 1000, Inl (VersionConflict 1000 999))
   \<and> getThread (fst (UpsertThread (db_with_thread 1000) (thread_v 2000) laptop
                        (UnixMilli 3000))) alice thread_a = Inr (thread_v 2000)"
proof -
  have ids: "thread_UserID (thread_v v) = alice" "thread_ID (thread_v v) = thread_a"
    "thread_Version (thread_v v) = v" for v
    by (simp_all add: thread_v_def)
  have h: "getThread (db_with_thread 1000) alice thread_a = Inr (thread_v 1000)"
    by code_simp
  have ok: "UpsertThread (db_with_thread 1000) (thread_v 2000) laptop (UnixMilli 3000)
              = (fst (UpsertThread (db_with_thread 1000) (thread_v 2000) laptop
                        (UnixMilli 3000)), Inr False)"
    by code_simp
  have c1: "UpsertThread (db_with_thread 1000) (thread_v 999) laptop (UnixMilli 2000)
              = (db_with_thread 1000, Inl (VersionConflict 1000 999))"
    using UpsertThread_stale_version_rejected
            [of "db_with_thread 1000" "thread_v 999" "thread_v 1000" laptop "UnixMilli 2000"] h
    by (simp add: ids)
  have c2: "getThread (fst (UpsertThread (db_with_thread 1000) (thread_v 2000) laptop
                        (UnixMilli 3000))) alice thread_a = Inr (thread_v 2000)"
    using UpsertThread_stale_version_rejected
            [of "db_with_thread 1000" "thread_v 2000" "thread_v 1000" laptop "UnixMilli 3000"]
          h ok
    unfolding ids by blast
  from h c1 c2 show ?thesis by simp
qed

lemma saveThread_succeeds:
  assumes "OpSet (thread_key (thread_UserID t) (thread_ID t)) \<notin> set (faults d)"
    and "OpZAdd (thread_timestamp_key (thread_UserID t)) \<notin> set (faults d)"
  shows "snd (saveThread d t) = None"
  using assms by (simp add: saveThread_def db_Set_def db_ZAdd_def)

text \<open>
  Claim C6. When the thread is absent, or is stored with a version strictly below the
  incoming one, and the store accepts the two writes of \<open>saveThread\<close>, the upsert
  succeeds, the thread read back afterwards is the incoming record, and the result is
  \<open>True\<close> exactly when no record existed before.
\<close>

theorem UpsertThread_accepts_new_or_newer:
  assumes "getThread d (thread_UserID t) (thread_ID t) = Inl RedisNil
           \<or> (\<exists>existing. getThread d (thread_UserID t) (thread_ID t) = Inr existing
                 \<and> thread_Version existing < thread_Version t)"
    and "OpSet (thread_key (thread_UserID t) (thread_ID t)) \<notin> set (faults d)"
    and "OpZAdd (thread_timestamp_key (thread_UserID t)) \<notin> set (faults d)"
  shows "snd (UpsertThread d t machineID now)
           = Inr (getThread d (thread_UserID t) (thread_ID t) = Inl RedisNil)
       \<and> getThread (fst (UpsertThread d t machineID now)) (thread_UserID t) (thread_ID t)
           = Inr t"
proof -
  let ?u = "thread_UserID t" and ?i = "thread_ID t"
  obtain d1 where s: "saveThread d t = (d1, None)"
    using saveThread_succeeds [OF assms(2,3)] by (cases "saveThread d t") auto
  have nf: "OpGet (thread_key ?u ?i) \<notin> set (faults d)"
    using assms(1) getThread_Inr_no_fault getThread_RedisNil_no_fault by blast
  have noconf: "\<not> (\<not> isl (getThread d ?u ?i)
                    \<and> thread_Version t \<le> thread_Version (projr (getThread d ?u ?i)))"
    using assms(1) by auto
  have created: "isl (getThread d ?u ?i) = (getThread d ?u ?i = Inl RedisNil)"
    using assms(1) by auto
  have up: "UpsertThread d t machineID now
              = (fst (storeMachineIDForChange d1 ''thread'' ?i machineID now),
                 Inr (getThread d ?u ?i = Inl RedisNil))"
    using noconf s created by (simp add: UpsertThread_def Let_def)
  show ?thesis
    unfolding up using getThread_after_saveThread [OF s nf] by simp
qed

text \<open>A creation in the empty store, then an update with a greater version.\<close>

theorem UpsertThread_accepts_new_or_newer_witness:
  "snd (UpsertThread empty_db (thread_v 1000) laptop (UnixMilli 1000)) = Inr True
   \<and> getThread (db_with_thread 1000) alice thread_a = Inr (thread_v 1000)
   \<and> snd (UpsertThread (db_with_thread 1000) (thread_v 2000) laptop (UnixMilli 3000))
       = Inr False
   \<and> getThread (fst (UpsertThread (db_with_thread 1000) (thread_v 2000) laptop
                        (UnixMilli 3000))) alice thread_a = Inr (thread_v 2000)"
proof -
  have ids: "thread_UserID (thread_v v) = alice" "thread_ID (thread_v v) = thread_a"
    "thread_Version (thread_v v) = v" for v
    by (simp_all add: thread_v_def)
  have absent: "getThread empty_db alice thread_a = Inl RedisNil"
    by code_simp
  have present: "getThread (db_with_thread 1000) alice thread_a = Inr (thread_v 1000)"
    by code_simp
  have f0: "faults empty_db = []"
    by (simp add: empty_db_def)
  have f1: "faults (db_with_thread 1000) = []"
    by code_simp
  show ?thesis
    using UpsertThread_accepts_new_or_newer
            [of empty_db "thread_v 1000" laptop "UnixMilli 1000"]
          UpsertThread_accepts_new_or_newer
            [of "db_with_thread 1000" "thread_v 2000" laptop "UnixMilli 3000"]
          absent present f0 f1
    by (simp add: ids db_with_thread_def)
qed

section \<open>Listing messages\<close>

text \<open>
  Claim C10. \<open>GetMessagesPaginated\<close> never looks at its parameter \<open>since\<close>: two calls
  that differ in it only return the same response, and so do two requests to the
  handler that differ in it only.
\<close>

theorem GetMessagesPaginated_ignores_since:
  "GetMessagesPaginated d threadID offset limit since
     = GetMessagesPaginated d threadID offset limit since'
   \<and> SyncHandler_GetMessages d threadID offsetQ limitQ since
     = SyncHandler_GetMessages d threadID offsetQ limitQ since'"
  by (simp add: GetMessagesPaginated_def SyncHandler_GetMessages_def)


section \<open>The change feed\<close>

lemma scan_threads_after:
  "t \<in> set (scan_threads d (Some s) keys) \<Longrightarrow> After (UnixMilli (thread_Version t)) s"
  by (induction keys) (auto split: sum.splits option.splits if_splits)

lemma scan_changes_after:
  "scan_changes parse d timestamp keys = Returned ops \<Longrightarrow> op \<in> set ops
     \<Longrightarrow> After (op_Timestamp op) timestamp"
proof (induction keys arbitrary: ops)
  case Nil
  then show ?case by simp
next
  case (Cons key keys)
  then show ?case
    by (auto simp: Let_def split: sum.splits option.splits if_splits outcome.splits)
qed

lemma settings_operations_after:
  "op \<in> set (provider_instances_operations d u timestamp) \<Longrightarrow> After (op_Timestamp op) timestamp"
  "op \<in> set (disabled_models_operations d u timestamp) \<Longrightarrow> After (op_Timestamp op) timestamp"
  "op \<in> set (advanced_settings_operations d u timestamp) \<Longrightarrow> After (op_Timestamp op) timestamp"
  by (auto simp: provider_instances_operations_def disabled_models_operations_def
        advanced_settings_operations_def split: sum.splits if_splits)

lemma thread_operations_after:
  assumes "op \<in> set (map (thread_operation d)
                  (case GetThreads d u (Some timestamp) of Inl err \<Rightarrow> [] | Inr ts \<Rightarrow> ts))"
  shows "After (op_Timestamp op) timestamp"
  using assms
  by (auto simp: GetThreads_def thread_operation_def Let_def
        dest: scan_threads_after split: sum.splits)

lemma message_operations_after:
  assumes "getMessageChangesSince parse d timestamp = Returned r"
    and "op \<in> set (case r of Inl err \<Rightarrow> [] | Inr mcs \<Rightarrow> mcs)"
  shows "After (op_Timestamp op) timestamp"
  using assms
  by (auto simp: getMessageChangesSince_def dest: scan_changes_after
        split: sum.splits outcome.splits)

text \<open>
  Claim C4. In the response of an incremental sync, that is of \<open>GetChangesSince\<close> with a
  cursor other than the zero instant, every operation carries a timestamp strictly
  after the cursor, whether it comes from a thread, from a settings record or from the
  change log of the messages.
\<close>

theorem incremental_operations_after_cursor:
  assumes "\<not> IsZero timestamp"
    and "GetChangesSince parse d userID timestamp now = Returned response"
  shows "\<forall>op \<in> set (resp_Operations response). After (op_Timestamp op) timestamp"
proof
  fix op
  assume mem: "op \<in> set (resp_Operations response)"
  from assms obtain r where
    r: "getMessageChangesSince parse d timestamp = Returned r"
    and resp: "resp_Operations response =
       (map (thread_operation d)
          (case GetThreads d userID (Some timestamp) of Inl err \<Rightarrow> [] | Inr ts \<Rightarrow> ts)
        @ provider_instances_operations d userID timestamp
        @ disabled_models_operations d userID timestamp
        @ advanced_settings_operations d userID timestamp)
       @ (case r of Inl err \<Rightarrow> [] | Inr mcs \<Rightarrow> mcs)"
    by (auto simp: GetChangesSince_def Let_def split: outcome.splits)
  from mem show "After (op_Timestamp op) timestamp"
    unfolding resp set_append Un_iff
    using thread_operations_after settings_operations_after message_operations_after [OF r]
    by blast
qed

text \<open>
  An incremental sync that returns three operations, one of each origin, all of them
  after the cursor.
\<close>

theorem incremental_operations_after_cursor_witness:
  "\<not> IsZero (UnixMilli 1700000000000)
   \<and> map op_Resource (operations_of (GetChangesSince (parse_only message_m) busy_db alice
            (UnixMilli 1700000000000) (UnixMilli 1700000000500)))
       = [''thread'', ''provider_instances'', ''message'']
   \<and> list_all (\<lambda>op. After (op_Timestamp op) (UnixMilli 1700000000000))
         (operations_of (GetChangesSince (parse_only message_m) busy_db alice
            (UnixMilli 1700000000000) (UnixMilli 1700000000500)))"
proof -
  let ?r = "GetChangesSince (parse_only message_m) busy_db alice
              (UnixMilli 1700000000000) (UnixMilli 1700000000500)"
  have nz: "\<not> IsZero (UnixMilli 1700000000000)"
    by code_simp
  have res: "map op_Resource (operations_of ?r)
               = [''thread'', ''provider_instances'', ''message'']"
    by code_simp
  then obtain response where ret: "?r = Returned response"
    by (cases ?r) (auto simp: operations_of_def)
  from incremental_operations_after_cursor [OF nz ret] nz res ret
  show ?thesis
    by (simp add: operations_of_def list_all_iff)
qed

section \<open>Deletion\<close>

lemma db_Get_after_db_Del:
  assumes "OpDel k \<notin> set (faults d)" and "OpGet k \<notin> set (faults d)"
  shows "db_Get (fst (db_Del d k)) k = Inl RedisNil"
  using assms by (simp add: db_Del_def db_Get_def delete_conv')

lemma db_ZRem_keeps:
  "kv (fst (db_ZRem d k m)) = kv d" "faults (fst (db_ZRem d k m)) = faults d"
  by (simp_all add: db_ZRem_def)

lemma db_Del_keeps_faults: "faults (fst (db_Del d k)) = faults d"
  by (simp add: db_Del_def)

lemma db_Set_keeps_faults: "faults (fst (db_Set d k v e)) = faults d"
  by (simp add: db_Set_def)

lemma DeleteThread_fst:
  assumes "OpDel (thread_key u i) \<notin> set (faults d)"
  shows "fst (DeleteThread d u i)
           = fst (db_ZRem (fst (db_Del d (thread_key u i))) (thread_timestamp_key u)
                    (uuid_String i))"
  using assms by (simp add: DeleteThread_def db_Del_def)

lemma DeleteThread_ok:
  assumes "OpDel (thread_key u i) \<notin> set (faults d)"
    and "OpZRem (thread_timestamp_key u) \<notin> set (faults d)"
  shows "snd (DeleteThread d u i) = None"
  using assms by (simp add: DeleteThread_def db_Del_def db_ZRem_def)

lemma DeleteThread_keeps_faults: "faults (fst (DeleteThread d u i)) = faults d"
  by (simp add: DeleteThread_def db_Del_def db_ZRem_def)

lemma getThread_after_DeleteThread:
  assumes "OpDel (thread_key u i) \<notin> set (faults d)"
    and "OpGet (thread_key u i) \<notin> set (faults d)"
  shows "getThread (fst (DeleteThread d u i)) u i = Inl RedisNil"
proof -
  have "db_Get (fst (DeleteThread d u i)) (thread_key u i)
          = db_Get (fst (db_Del d (thread_key u i))) (thread_key u i)"
    unfolding DeleteThread_fst [OF assms(1)]
    by (simp add: db_Get_def db_ZRem_keeps)
  then show ?thesis
    using db_Get_after_db_Del [OF assms] by (simp add: getThread_def)
qed

lemma DeleteMessage_ok:
  assumes "OpDel (message_key tid mid) \<notin> set (faults d)"
  shows "snd (DeleteMessage d tid mid now) = None"
  using assms
  by (simp add: DeleteMessage_def Let_def db_Del_def storeMessageChange_def
        db_Set_keeps_faults)

lemma DeleteMessage_keeps_faults: "faults (fst (DeleteMessage d tid mid now)) = faults d"
  by (simp add: DeleteMessage_def Let_def db_Del_keeps_faults storeMessageChange_def
        db_Set_keeps_faults)

lemma db_Get_after_DeleteMessage:
  assumes "OpDel (message_key tid mid) \<notin> set (faults d)"
    and "OpGet (message_key tid mid) \<notin> set (faults d)"
  shows "db_Get (fst (DeleteMessage d tid mid now)) (message_key tid mid) = Inl RedisNil"
  unfolding DeleteMessage_def Let_def
  by (rule db_Get_after_db_Del)
     (simp_all add: assms storeMessageChange_def db_Set_keeps_faults)

text \<open>
  Claim C8. Deleting a thread or a message checks no version and does not depend on
  what the store holds: whenever the store carries out the calls, the deletion returns
  no error, also when the resource is absent, the next read of the resource reports
  that it is not found, and a second deletion returns no error either.
\<close>

theorem delete_unconditional_and_idempotent:
  assumes "OpDel (thread_key u i) \<notin> set (faults d)"
    and "OpZRem (thread_timestamp_key u) \<notin> set (faults d)"
    and "OpGet (thread_key u i) \<notin> set (faults d)"
    and "OpDel (message_key tid mid) \<notin> set (faults d)"
    and "OpGet (message_key tid mid) \<notin> set (faults d)"
  shows "snd (DeleteThread d u i) = None
       \<and> getThread (fst (DeleteThread d u i)) u i = Inl RedisNil
       \<and> snd (DeleteThread (fst (DeleteThread d u i)) u i) = None
       \<and> snd (DeleteMessage d tid mid now) = None
       \<and> db_Get (fst (DeleteMessage d tid mid now)) (message_key tid mid) = Inl RedisNil
       \<and> snd (DeleteMessage (fst (DeleteMessage d tid mid now)) tid mid later) = None"
proof -
  have t2: "snd (DeleteThread (fst (DeleteThread d u i)) u i) = None"
    by (rule DeleteThread_ok) (simp_all add: DeleteThread_keeps_faults assms)
  have m2: "snd (DeleteMessage (fst (DeleteMessage d tid mid now)) tid mid later) = None"
    by (rule DeleteMessage_ok) (simp add: DeleteMessage_keeps_faults assms)
  show ?thesis
    using DeleteThread_ok [OF assms(1,2)] getThread_after_DeleteThread [OF assms(1,3)] t2
      DeleteMessage_ok [OF assms(4)] db_Get_after_DeleteMessage [OF assms(4,5)] m2
    by simp
qed

text \<open>
  Deleting the thread of the specification's scenario and a message that was never
  stored, each of them twice.
\<close>

theorem delete_unconditional_and_idempotent_witness:
  "getThread (db_with_thread 2000) alice thread_a = Inr (thread_v 2000)
   \<and> snd (DeleteThread (db_with_thread 2000) alice thread_a) = None
   \<and> getThread (fst (DeleteThread (db_with_thread 2000) alice thread_a)) alice thread_a
       = Inl RedisNil
   \<and> snd (DeleteThread (fst (DeleteThread (db_with_thread 2000) alice thread_a))
            alice thread_a) = None
   \<and> db_Get (db_with_thread 2000) (message_key (uuid_String thread_a) ''m1'') = Inl RedisNil
   \<and> snd (DeleteMessage (db_with_thread 2000) (uuid_String thread_a) ''m1'' (UnixMilli 3000))
       = None
   \<and> snd (DeleteMessage
            (fst (DeleteMessage (db_with_thread 2000) (uuid_String thread_a) ''m1''
                    (UnixMilli 3000)))
            (uuid_String thread_a) ''m1'' (UnixMilli 4000)) = None"
proof -
  have f: "faults (db_with_thread 2000) = []"
    by code_simp
  have before: "getThread (db_with_thread 2000) alice thread_a = Inr (thread_v 2000)"
    "db_Get (db_with_thread 2000) (message_key (uuid_String thread_a) ''m1'') = Inl RedisNil"
    by code_simp+
  show ?thesis
    using delete_unconditional_and_idempotent
            [of alice thread_a "db_with_thread 2000" "uuid_String thread_a" "''m1''"
                "UnixMilli 3000" "UnixMilli 4000"] before
    by (simp add: f)
qed

section \<open>Side effects after the primary write\<close>

lemma stored_after_db_Set:
  "db_Set d k v 0 = (d1, None) \<Longrightarrow> map_of (kv d1) k = Some (v, None)"
  by (auto simp: db_Set_def update_conv' split: if_splits)

lemma stored_after_other_db_Set:
  "k' \<noteq> k \<Longrightarrow> map_of (kv (fst (db_Set d k v e))) k' = map_of (kv d) k'"
  by (simp add: db_Set_def update_conv')






section \<open>Settings\<close>

lemma settings_key_neq_machine_id_key:
  "machine_id_key r i t \<noteq> provider_instances_key u"
  "machine_id_key r i t \<noteq> disabled_models_key u"
  "machine_id_key r i t \<noteq> advanced_settings_key u"
  by (simp_all add: machine_id_key_def provider_instances_key_def disabled_models_key_def
        advanced_settings_key_def)

lemma stored_after_settings_side_effect:
  "map_of (kv (fst (storeMachineIDForChange d r i m now))) (provider_instances_key u)
     = map_of (kv d) (provider_instances_key u)"
  "map_of (kv (fst (storeMachineIDForChange d r i m now))) (disabled_models_key u)
     = map_of (kv d) (disabled_models_key u)"
  "map_of (kv (fst (storeMachineIDForChange d r i m now))) (advanced_settings_key u)
     = map_of (kv d) (advanced_settings_key u)"
  by (simp_all add: storeMachineIDForChange_def stored_after_other_db_Set
        settings_key_neq_machine_id_key [symmetric])

lemma db_Set_accepted:
  "OpSet k \<notin> set (faults d) \<Longrightarrow> db_Set d k v e = (fst (db_Set d k v e), None)"
  by (simp add: db_Set_def)

text \<open>
  Claim C5, as the code has it. The three settings records are written without any
  comparison of versions: whenever the store accepts the write, the update succeeds
  and the stored record is the incoming one, with \<open>updated_at\<close> set to the server's
  time of the write, whatever record was stored before and whatever the two versions
  are.
\<close>

theorem settings_update_unconditional:
  assumes "OpSet (provider_instances_key (pi_UserID p)) \<notin> set (faults d)"
    and "OpSet (disabled_models_key (dm_UserID m)) \<notin> set (faults d)"
    and "OpSet (advanced_settings_key (as_UserID a)) \<notin> set (faults d)"
  shows "snd (UpdateProviderInstances d p machineID now) = None
       \<and> map_of (kv (fst (UpdateProviderInstances d p machineID now)))
            (provider_instances_key (pi_UserID p))
           = Some (JProviderInstances (p\<lparr>pi_UpdatedAt := now\<rparr>), None)
       \<and> snd (UpdateDisabledModels d m machineID now) = None
       \<and> map_of (kv (fst (UpdateDisabledModels d m machineID now)))
            (disabled_models_key (dm_UserID m))
           = Some (JDisabledModels (m\<lparr>dm_UpdatedAt := now\<rparr>), None)
       \<and> snd (UpdateAdvancedSettings d a machineID now) = None
       \<and> map_of (kv (fst (UpdateAdvancedSettings d a machineID now)))
            (advanced_settings_key (as_UserID a))
           = Some (JAdvancedSettings (a\<lparr>as_UpdatedAt := now\<rparr>), None)"
proof -
  have pi: "UpdateProviderInstances d p machineID now
      = (fst (storeMachineIDForChange
                (fst (db_Set d (provider_instances_key (pi_UserID p))
                        (JProviderInstances (p\<lparr>pi_UpdatedAt := now\<rparr>)) 0))
                ''provider_instances'' (pi_UserID p) machineID now), None)"
    using assms(1) by (simp add: UpdateProviderInstances_def Let_def db_Set_def)
  have dm: "UpdateDisabledModels d m machineID now
      = (fst (storeMachineIDForChange
                (fst (db_Set d (disabled_models_key (dm_UserID m))
                        (JDisabledModels (m\<lparr>dm_UpdatedAt := now\<rparr>)) 0))
                ''disabled_models'' (dm_UserID m) machineID now), None)"
    using assms(2) by (simp add: UpdateDisabledModels_def Let_def db_Set_def)
  have as: "UpdateAdvancedSettings d a machineID now
      = (fst (storeMachineIDForChange
                (fst (db_Set d (advanced_settings_key (as_UserID a))
                        (JAdvancedSettings (a\<lparr>as_UpdatedAt := now\<rparr>)) 0))
                ''advanced_settings'' (as_UserID a) machineID now), None)"
    using assms(3) by (simp add: UpdateAdvancedSettings_def Let_def db_Set_def)
  show ?thesis
    unfolding pi dm as
    using stored_after_db_Set [OF db_Set_accepted [OF assms(1)]]
      stored_after_db_Set [OF db_Set_accepted [OF assms(2)]]
      stored_after_db_Set [OF db_Set_accepted [OF assms(3)]]
    by (simp add: stored_after_settings_side_effect)
qed

text \<open>
  The claim as the specification states it fails: provider instances stored with
  version 5 are replaced by an update that carries version 3, and the update reports
  success.
\<close>

theorem settings_update_lower_version_accepted:
  "GetProviderInstances (db_with_providers 5 (UnixMilli 1700000000250)) alice
     = Inr ((providers_v 5)\<lparr>pi_UpdatedAt := UnixMilli 1700000000250\<rparr>)
   \<and> snd (UpdateProviderInstances (db_with_providers 5 (UnixMilli 1700000000250))
            (providers_v 3) laptop (UnixMilli 1700000000900)) = None
   \<and> GetProviderInstances
        (fst (UpdateProviderInstances (db_with_providers 5 (UnixMilli 1700000000250))
                (providers_v 3) laptop (UnixMilli 1700000000900))) alice
       = Inr ((providers_v 3)\<lparr>pi_UpdatedAt := UnixMilli 1700000000900\<rparr>)"
  by code_simp

text \<open>The three updates in a store that already holds provider instances of a greater
  version.\<close>

theorem settings_update_unconditional_witness:
  "snd (UpdateProviderInstances (db_with_providers 5 (UnixMilli 1700000000250))
          (providers_v 3) laptop (UnixMilli 1700000000900)) = None
   \<and> map_of (kv (fst (UpdateProviderInstances (db_with_providers 5 (UnixMilli 1700000000250))
                        (providers_v 3) laptop (UnixMilli 1700000000900))))
        (provider_instances_key alice)
       = Some (JProviderInstances ((providers_v 3)\<lparr>pi_UpdatedAt := UnixMilli 1700000000900\<rparr>),
               None)
   \<and> snd (UpdateDisabledModels (db_with_providers 5 (UnixMilli 1700000000250))
            (models_v 1) laptop (UnixMilli 1700000000900)) = None
   \<and> snd (UpdateAdvancedSettings (db_with_providers 5 (UnixMilli 1700000000250))
            (settings_v 1) laptop (UnixMilli 1700000000900)) = None"
proof -
  have f: "faults (db_with_providers 5 (UnixMilli 1700000000250)) = []"
    by code_simp
  have ids: "pi_UserID (providers_v 3) = alice"
    by (simp add: providers_v_def)
  show ?thesis
    using settings_update_unconditional
            [of "providers_v 3" "db_with_providers 5 (UnixMilli 1700000000250)"
                "models_v 1" "settings_v 1" laptop "UnixMilli 1700000000900"]
    by (simp add: f ids)
qed

section \<open>Attribution of thread writes\<close>

text \<open>
  \<open>UpsertThread\<close> files the machine id under the server's time of the write, and the
  change feed looks it up under the instant that the version of the thread denotes.
\<close>

lemma thread_operation_MachineID:
  "op_MachineID (thread_operation d t)
     = getMachineIDForChange d ''thread'' (thread_ID t) (UnixMilli (thread_Version t))"
  by (simp add: thread_operation_def Let_def)

text \<open>
  Claim C1 fails for threads. A client writes a thread with version 1700000000000 and
  its machine id; the server's clock reads 1700000000250 at the write. An incremental
  sync from a cursor one second before the write returns one operation for the thread,
  with an empty machine id; from a cursor that lies before the write and after the
  version it returns no operation for the thread.
\<close>

theorem thread_echo_loses_machine_id:
  "snd (UpsertThread empty_db (thread_v 1700000000000) laptop (UnixMilli 1700000000250))
     = Inr True
   \<and> map (\<lambda>op. (op_Resource op, op_ID op, op_MachineID op))
        (operations_of
           (GetChangesSince (parse_only message_m)
              (fst (UpsertThread empty_db (thread_v 1700000000000) laptop
                      (UnixMilli 1700000000250)))
              alice (UnixMilli 1699999999250) (UnixMilli 1700000000300)))
       = [(''thread'', ''018f3a2b-5c6d-7000-8000-00000000000a'', [])]
   \<and> GetChangesSince (parse_only message_m)
        (fst (UpsertThread empty_db (thread_v 1700000000000) laptop
                (UnixMilli 1700000000250)))
        alice (UnixMilli 1700000000100) (UnixMilli 1700000000300)
       = Returned \<lparr>resp_FullThreads = [], resp_FullMessages = [],
                    resp_ProviderInstances = None, resp_DisabledModels = None,
                    resp_AdvancedSettings = None, resp_Operations = [],
                    resp_SyncTimestamp = UnixMilli 1700000000300\<rparr>"
  by code_simp

section \<open>Full synchronisation\<close>

lemma IsZero_UnixMilli: "IsZero (UnixMilli msec) \<longleftrightarrow> msec = - 62135596800000"
  by (simp add: IsZero_def UnixMilli_def zeroTime_def)

lemma full_sync_has_no_operations:
  "IsZero timestamp \<Longrightarrow> GetChangesSince parse d userID timestamp now = Returned response
     \<Longrightarrow> resp_Operations response = [] \<and> resp_SyncTimestamp response = now"
  by (auto simp: GetChangesSince_def Let_def)

text \<open>
  Claim C3 fails on two counts. The handler of \<open>/changes-since/0\<close> passes the Unix epoch,
  which is not the zero instant, so the request is answered as an incremental sync:
  no snapshot and three operations. And the snapshot that the zero instant does
  produce takes its messages from every key \<open>messages:*\<close>: a user who owns no thread
  receives the message of another user's thread.
\<close>

theorem changes_since_zero_is_not_a_full_sync:
  "map_option resp_FullThreads
     (body_of (SyncHandler_GetChangesSince (parse_only message_m) busy_db alice (Some 0)
                 (UnixMilli 1700000000500))) = Some []
   \<and> map_option (map op_Resource \<circ> resp_Operations)
       (body_of (SyncHandler_GetChangesSince (parse_only message_m) busy_db alice (Some 0)
                   (UnixMilli 1700000000500)))
       = Some [''thread'', ''provider_instances'', ''message'']
   \<and> GetThreads busy_db bob None = Inr []
   \<and> GetChangesSince (parse_only message_m) busy_db bob zeroTime (UnixMilli 1700000000500)
       = Returned \<lparr>resp_FullThreads = [],
                    resp_FullMessages =
                      [message_of ''018f3a2b-5c6d-7000-8000-000000000c01''
                         ''c2VhbGVkLW1lc3NhZ2U=''],
                    resp_ProviderInstances = None, resp_DisabledModels = None,
                    resp_AdvancedSettings = None, resp_Operations = [],
                    resp_SyncTimestamp = UnixMilli 1700000000500\<rparr>"
  by code_simp

section \<open>Pagination\<close>

lemma threads_limit_clamped:
  "0 < threads_limit q" "threads_limit q \<le> 28"
  "28 < l \<Longrightarrow> threads_limit (Some l) = 28"
  "0 < l \<Longrightarrow> l \<le> 28 \<Longrightarrow> threads_limit (Some l) = l"
  by (auto simp: threads_limit_def split: option.splits)

lemma messages_limit_clamped:
  "0 < messages_limit q" "messages_limit q \<le> 50"
  "50 < l \<Longrightarrow> messages_limit (Some l) = 50"
  "0 < l \<Longrightarrow> l \<le> 50 \<Longrightarrow> messages_limit (Some l) = l"
  by (auto simp: messages_limit_def split: option.splits)

lemma wrap_int64_id: "- (2 ^ 63) \<le> x \<Longrightarrow> x < 2 ^ 63 \<Longrightarrow> wrap_int64 x = x"
  by (simp add: wrap_int64_def)

lemma has_more_without_overflow:
  assumes "0 \<le> offset" and "0 \<le> limit" and "offset + limit < 2 ^ 63"
  shows "GetThreadsPaginated d userID offset limit since = Returned (Inr r)
           \<Longrightarrow> pt_HasMore r = (offset + limit < pt_Total r)"
    and "GetMessagesPaginated d threadID offset limit since = Returned (Inr r')
           \<Longrightarrow> pm_HasMore r' = (offset + limit < pm_Total r')"
proof -
  have w: "int64_add offset limit = offset + limit"
    using assms by (simp add: int64_add_def wrap_int64_id)
  show "GetThreadsPaginated d userID offset limit since = Returned (Inr r)
           \<Longrightarrow> pt_HasMore r = (offset + limit < pt_Total r)"
    by (auto simp: GetThreadsPaginated_def Let_def w split: sum.splits outcome.splits)
  show "GetMessagesPaginated d threadID offset limit since = Returned (Inr r')
           \<Longrightarrow> pm_HasMore r' = (offset + limit < pm_Total r')"
    by (auto simp: GetMessagesPaginated_def Let_def w split: sum.splits outcome.splits)
qed

text \<open>
  Claim C9 fails where the sum \<open>offset + limit\<close> leaves the range of \<open>int\<close>. With the
  offset 9223372036854775807 and a limit of 100, the limit is clamped to 28 for threads
  and to 50 for messages, the sum wraps around to a negative number, and the response
  says that there is more although the offset lies beyond the single item.
\<close>

theorem has_more_wraps_around:
  "SyncHandler_GetThreads busy_db alice (Some 9223372036854775807) (Some 100) None
     = Status200 \<lparr>pt_Threads = [], pt_Total = 1, pt_Offset = 9223372036854775807,
                   pt_Limit = 28, pt_HasMore = True\<rparr>
   \<and> SyncHandler_GetMessages busy_db (uuid_String thread_a) (Some 9223372036854775807)
        (Some 100) None
     = Status200 \<lparr>pm_Messages = [], pm_Total = 1, pm_Offset = 9223372036854775807,
                   pm_Limit = 50, pm_HasMore = True\<rparr>
   \<and> \<not> (9223372036854775807 + 28 < (1 :: int))"
  by code_simp

end
